theory Spec2Isabelle
  imports Main "HOL-Library.Word"
begin

unbundle bit_operations_syntax

section \<open>The Scheveningen oscillator firmware (schevinengen.ino)\<close>

text \<open>
  The firmware runs on an AVR microcontroller, where \<open>int\<close> and \<open>unsigned int\<close> are
  16 bits wide. The globals declared \<open>uint16_t\<close> are therefore computed in 16-bit
  unsigned arithmetic without any widening: every \<open>+\<close>, \<open>*\<close> and \<open><<\<close> on them wraps
  modulo 65536. They are modelled as \<open>16 word\<close>; the \<open>uint32_t\<close> accumulator as
  \<open>32 word\<close>; \<open>byte\<close> and \<open>uint8_t\<close> as \<open>8 word\<close>.
\<close>

type_synonym u8 = "8 word"
type_synonym u16 = "16 word"
type_synonym u32 = "32 word"

subsection \<open>Lookup tables in program memory\<close>

text \<open>\<open>freqTable\<close>: control code (0..1023) to phase increment per sample.\<close>

definition freqTable :: "u16 list" where
  "freqTable = [
    69, 69, 69, 69, 70, 70, 70, 70, 70, 71, 71, 71, 71, 72, 72,
    72, 72, 73, 73, 73, 73, 74, 74, 74, 74, 75, 75, 75, 75, 76,
    76, 76, 76, 77, 77, 77, 77, 78, 78, 78, 79, 79, 79, 79, 80,
    80, 80, 80, 81, 81, 81, 82, 82, 82, 82, 83, 83, 83, 83, 84,
    84, 84, 85, 85, 85, 85, 86, 86, 86, 87, 87, 87, 88, 88, 88,
    88, 89, 89, 89, 90, 90, 90, 91, 91, 91, 91, 92, 92, 92, 93,
    93, 93, 94, 94, 94, 95, 95, 95, 96, 96, 96, 97, 97, 97, 98,
    98, 98, 99, 99, 99, 100, 100, 100, 101, 101, 101, 102, 102, 102, 103,
    103, 103, 104, 104, 104, 105, 105, 105, 106, 106, 107, 107, 107, 108, 108,
    108, 109, 109, 109, 110, 110, 111, 111, 111, 112, 112, 112, 113, 113, 114,
    114, 114, 115, 115, 116, 116, 116, 117, 117, 117, 118, 118, 119, 119, 119,
    120, 120, 121, 121, 122, 122, 122, 123, 123, 124, 124, 124, 125, 125, 126,
    126, 127, 127, 127, 128, 128, 129, 129, 130, 130, 130, 131, 131, 132, 132,
    133, 133, 134, 134, 135, 135, 135, 136, 136, 137, 137, 138, 138, 139, 139,
    140, 140, 141, 141, 142, 142, 142, 143, 143, 144, 144, 145, 145, 146, 146,
    147, 147, 148, 148, 149, 149, 150, 150, 151, 151, 152, 152, 153, 154, 154,
    155, 155, 156, 156, 157, 157, 158, 158, 159, 159, 160, 160, 161, 161, 162,
    163, 163, 164, 164, 165, 165, 166, 166, 167, 168, 168, 169, 169, 170, 170,
    171, 172, 172, 173, 173, 174, 175, 175, 176, 176, 177, 178, 178, 179, 179,
    180, 181, 181, 182, 182, 183, 184, 184, 185, 186, 186, 187, 187, 188, 189,
    189, 190, 191, 191, 192, 193, 193, 194, 195, 195, 196, 197, 197, 198, 199,
    199, 200, 201, 201, 202, 203, 203, 204, 205, 205, 206, 207, 207, 208, 209,
    210, 210, 211, 212, 212, 213, 214, 215, 215, 216, 217, 218, 218, 219, 220,
    220, 221, 222, 223, 223, 224, 225, 226, 227, 227, 228, 229, 230, 230, 231,
    232, 233, 234, 234, 235, 236, 237, 238, 238, 239, 240, 241, 242, 242, 243,
    244, 245, 246, 247, 247, 248, 249, 250, 251, 252, 252, 253, 254, 255, 256,
    257, 258, 259, 259, 260, 261, 262, 263, 264, 265, 266, 267, 267, 268, 269,
    270, 271, 272, 273, 274, 275, 276, 277, 278, 278, 279, 280, 281, 282, 283,
    284, 285, 286, 287, 288, 289, 290, 291, 292, 293, 294, 295, 296, 297, 298,
    299, 300, 301, 302, 303, 304, 305, 306, 307, 308, 309, 310, 311, 312, 314,
    315, 316, 317, 318, 319, 320, 321, 322, 323, 324, 325, 327, 328, 329, 330,
    331, 332, 333, 334, 335, 337, 338, 339, 340, 341, 342, 344, 345, 346, 347,
    348, 349, 351, 352, 353, 354, 355, 357, 358, 359, 360, 361, 363, 364, 365,
    366, 368, 369, 370, 371, 373, 374, 375, 376, 378, 379, 380, 382, 383, 384,
    385, 387, 388, 389, 391, 392, 393, 395, 396, 397, 399, 400, 401, 403, 404,
    405, 407, 408, 410, 411, 412, 414, 415, 417, 418, 419, 421, 422, 424, 425,
    427, 428, 429, 431, 432, 434, 435, 437, 438, 440, 441, 443, 444, 446, 447,
    449, 450, 452, 453, 455, 456, 458, 460, 461, 463, 464, 466, 467, 469, 471,
    472, 474, 475, 477, 479, 480, 482, 484, 485, 487, 488, 490, 492, 493, 495,
    497, 498, 500, 502, 504, 505, 507, 509, 510, 512, 514, 516, 517, 519, 521,
    523, 524, 526, 528, 530, 532, 533, 535, 537, 539, 541, 542, 544, 546, 548,
    550, 552, 554, 555, 557, 559, 561, 563, 565, 567, 569, 571, 573, 575, 577,
    579, 580, 582, 584, 586, 588, 590, 592, 594, 596, 598, 600, 602, 605, 607,
    609, 611, 613, 615, 617, 619, 621, 623, 625, 627, 630, 632, 634, 636, 638,
    640, 642, 645, 647, 649, 651, 653, 656, 658, 660, 662, 665, 667, 669, 671,
    674, 676, 678, 681, 683, 685, 687, 690, 692, 695, 697, 699, 702, 704, 706,
    709, 711, 714, 716, 718, 721, 723, 726, 728, 731, 733, 736, 738, 741, 743,
    746, 748, 751, 753, 756, 758, 761, 764, 766, 769, 771, 774, 777, 779, 782,
    784, 787, 790, 793, 795, 798, 801, 803, 806, 809, 812, 814, 817, 820, 823,
    825, 828, 831, 834, 837, 839, 842, 845, 848, 851, 854, 857, 860, 862, 865,
    868, 871, 874, 877, 880, 883, 886, 889, 892, 895, 898, 901, 904, 907, 910,
    914, 917, 920, 923, 926, 929, 932, 935, 939, 942, 945, 948, 951, 955, 958,
    961, 964, 968, 971, 974, 978, 981, 984, 988, 991, 994, 998, 1001, 1004, 1008,
    1011, 1015, 1018, 1022, 1025, 1028, 1032, 1035, 1039, 1042, 1046, 1050, 1053, 1057, 1060,
    1064, 1067, 1071, 1075, 1078, 1082, 1086, 1089, 1093, 1097, 1100, 1104, 1108, 1112, 1115,
    1119, 1123, 1127, 1131, 1135, 1138, 1142, 1146, 1150, 1154, 1158, 1162, 1166, 1170, 1174,
    1178, 1182, 1186, 1190, 1194, 1198, 1202, 1206, 1210, 1214, 1218, 1222, 1226, 1231, 1235,
    1239, 1243, 1247, 1252, 1256, 1260, 1264, 1269, 1273, 1277, 1282, 1286, 1290, 1295, 1299,
    1303, 1308, 1312, 1317, 1321, 1326, 1330, 1335, 1339, 1344, 1348, 1353, 1357, 1362, 1367,
    1371, 1376, 1381, 1385, 1390, 1395, 1399, 1404, 1409, 1414, 1418, 1423, 1428, 1433, 1438,
    1443, 1448, 1452, 1457, 1462, 1467, 1472, 1477, 1482, 1487, 1492, 1497, 1502, 1508, 1513,
    1518, 1523, 1528, 1533, 1538, 1544, 1549, 1554, 1559, 1565, 1570, 1575, 1581, 1586, 1591,
    1597, 1602, 1608, 1613, 1619, 1624, 1630, 1635, 1641, 1646, 1652, 1657, 1663, 1669, 1674,
    1680, 1686, 1691, 1697, 1703, 1709, 1714, 1720, 1726, 1732, 1738, 1744, 1750, 1756, 1762,
    1768, 1774, 1780, 1786, 1792, 1798, 1804, 1810, 1816, 1822, 1828, 1835, 1841, 1847, 1853,
    1860, 1866, 1872, 1879, 1885, 1891, 1898, 1904, 1911, 1917, 1924, 1930, 1937, 1943, 1950,
    1956, 1963, 1970, 1976, 1983, 1990, 1997, 2003, 2010, 2017, 2024, 2031, 2037, 2044, 2051,
    2058, 2065, 2072, 2079, 2086, 2093, 2101, 2108, 2115, 2122, 2129, 2136, 2144, 2151, 2158,
    2165, 2173, 2180, 2188]"

definition midiTable :: "u16 list" where
  "midiTable = [
    0, 17, 33, 51, 66, 86, 101, 119, 136, 153, 169, 187, 205, 221, 238,
    255, 273, 290, 307, 325, 341, 359, 375, 393, 410, 427, 444, 461, 478, 495,
    512, 529, 546, 563, 581, 597, 615, 631, 649, 666, 683, 699, 717, 734, 751,
    768, 785, 802, 819, 836, 853, 870, 888, 904, 922, 939, 956, 973, 990, 1007,
    1023]"

text \<open>
  \<open>pgm_read_word_near (table + i)\<close> reads the flash word at offset \<open>i\<close> from the start
  of the table. Inside the table that is its \<open>i\<close>-th entry; beyond its end the read
  returns whatever happens to follow in flash, which the model reports as \<open>None\<close>.
\<close>

definition pgm_read_word_near :: "u16 list \<Rightarrow> nat \<Rightarrow> u16 option" where
  "pgm_read_word_near table i = (if i < length table then Some (table ! i) else None)"

definition mapMIDI :: "u16 \<Rightarrow> u16 option" where
  "mapMIDI input =
     (case pgm_read_word_near midiTable (unat input) of
        None \<Rightarrow> None
      | Some code \<Rightarrow> pgm_read_word_near freqTable (unat code))"

definition mapFreq :: "u16 \<Rightarrow> u16 option" where
  "mapFreq input = pgm_read_word_near freqTable (unat input)"

subsection \<open>Program state\<close>

text \<open>
  The portamento ramp object \<open>portRamp\<close> belongs to the external Ramp library. The
  firmware only issues \<open>go\<close> requests to it and reads its \<open>update()\<close> value, so the
  model keeps the last request issued: \<open>Go v\<close> for \<open>portRamp.go(v)\<close> and
  \<open>GoTimed v dur mode loop\<close> for the four-argument call. The value read back by
  \<open>update()\<close> is an input of the control loop.
\<close>

datatype ramp_mode = LINEAR
datatype loop_mode = ONCEFORWARD

datatype ramp_request =
    Go u16
  | GoTimed u16 u16 ramp_mode loop_mode

fun ramp_target :: "ramp_request \<Rightarrow> u16" where
  "ramp_target (Go v) = v"
| "ramp_target (GoTimed v dur m l) = v"

text \<open>The global \<open>output\<close> is the field \<open>output_u8\<close> (\<open>output\<close> is reserved in Isabelle).\<close>

record state =
  leader_polarity :: bool
  follower_polarity :: bool
  output_u8 :: u8
  leader_phase :: u16
  phase_inc :: u16
  follower_offset_current :: u16
  follower_offset_measured :: u16
  wrap_factor :: u16
  neg_wrap_factor :: u16
  follower_phase :: u16
  leader_value :: u16
  follower_value :: u16
  accumulator :: u32
  port :: bool
  portTime :: u16
  portRamp :: ramp_request
  midinote :: u16
  digital_out :: bool

text \<open>
  The values the globals are initialised with. No request has been issued to the ramp
  yet; the field holds \<open>Go 0\<close>.
\<close>

definition initial_state :: state where
  "initial_state =
     \<lparr> leader_polarity = False, follower_polarity = False, output_u8 = 0,
       leader_phase = 0, phase_inc = 1,
       follower_offset_current = 1, follower_offset_measured = 1,
       wrap_factor = 64, neg_wrap_factor = 64,
       follower_phase = 0, leader_value = 0, follower_value = 0,
       accumulator = 0, port = False, portTime = 0,
       portRamp = Go 0, midinote = 0, digital_out = False \<rparr>"

subsection \<open>MIDI event handlers\<close>

text \<open>
  \<open>handleNoteOn\<close>: \<open>pitch\<close> is a byte, promoted to \<open>int\<close> inside the \<open>min\<close>/\<open>max\<close>
  macros; the difference is stored into the 16-bit \<open>midinote\<close>. The macros evaluate
  \<open>pitch\<close> more than once, but it is a parameter and reads the same each time. The
  result is \<open>None\<close> when \<open>mapMIDI\<close> reads outside a table.
\<close>

definition handleNoteOn :: "u8 \<Rightarrow> u8 \<Rightarrow> u8 \<Rightarrow> state \<Rightarrow> state option" where
  "handleNoteOn channel pitch velocity s =
     (let s1 = s\<lparr>digital_out := True\<rparr>;
          s2 = s1\<lparr>midinote := word_of_int (max 24 (min 84 (uint pitch)) - 24)\<rparr>
      in case mapMIDI (midinote s2) of
           None \<Rightarrow> None
         | Some v \<Rightarrow>
             Some (if port s2
                   then s2\<lparr>portRamp := GoTimed v (portTime s2) LINEAR ONCEFORWARD\<rparr>
                   else s2\<lparr>portRamp := Go v\<rparr>))"

definition handleNoteOff :: "u8 \<Rightarrow> u8 \<Rightarrow> u8 \<Rightarrow> state \<Rightarrow> state" where
  "handleNoteOff channel pitch velocity s = s\<lparr>digital_out := False\<rparr>"

text \<open>
  \<open>handleControlChange\<close>: \<open>20 * val\<close> is computed in \<open>int\<close> (16 bits) and stored into
  the 16-bit \<open>portTime\<close>.
\<close>

definition handleControlChange :: "u8 \<Rightarrow> u8 \<Rightarrow> u8 \<Rightarrow> state \<Rightarrow> state" where
  "handleControlChange channel num val s =
     (if num = 5
      then (if val = 0
            then s\<lparr>port := False\<rparr>
            else (s\<lparr>port := True\<rparr>)\<lparr>portTime := 20 * ucast val\<rparr>)
      else s)"

subsection \<open>The control-rate loop\<close>

text \<open>
  The Arduino core defines \<open>min\<close> and \<open>max\<close> as macros,
  \<open>#define min(a,b) ((a)<(b)?(a):(b))\<close> and \<open>#define max(a,b) ((a)>(b)?(a):(b))\<close>, so the
  argument that is selected is evaluated a second time, after the comparison. In
  \<open>min(1023, analogRead(CV) + analogRead(KNOB))\<close> the sum is read for the comparison and,
  when it is not above 1023, both pins are read again for the result. \<open>min_1023\<close> takes
  the sum of the comparison and the sum of the second evaluation.

  \<open>analogRead\<close> returns an \<open>int\<close> in 0..1023, so the sums stay far from the 16-bit limit
  and are modelled on \<open>int\<close>; \<open>>> 1\<close> on such a non-negative value is division by two.
\<close>

definition min_1023 :: "int \<Rightarrow> int \<Rightarrow> int" where
  "min_1023 compared again = (if 1023 < compared then 1023 else again)"

text \<open>
  \<open>loop\<close>: line 286 holds the follower sum twice, so each follower pin has two
  successive readings. Line 289 is \<open>min(64 + (min(1023, sum) >> 1), 511)\<close>: the outer macro
  holds its first argument twice and each copy holds the sum twice, so each wrap pin has
  four successive readings, the first two for the comparison with 511 and the last two
  for the value stored when the comparison holds. A reading that the taken branches do
  not evaluate is not used. On line 290 the repeated argument is the global
  \<open>wrap_factor\<close>, which reads the same both times. The value returned by
  \<open>portRamp.update()\<close> is an input. \<open>MIDI.read()\<close>, which may call one of the handlers
  above, is not part of this function.
\<close>

definition loop ::
  "u16 \<Rightarrow> int \<times> int \<Rightarrow> int \<times> int \<Rightarrow> int \<times> int \<times> int \<times> int \<Rightarrow>
   int \<times> int \<times> int \<times> int \<Rightarrow> state \<Rightarrow> state" where
  "loop ramp_value follower_cv follower_knob wrap_cv wrap_knob s =
     (case (follower_cv, follower_knob, wrap_cv, wrap_knob) of
        ((fc1, fc2), (fk1, fk2), (wc1, wc2, wc3, wc4), (wk1, wk2, wk3, wk4)) \<Rightarrow>
          (let s1 = s\<lparr>phase_inc := ramp_value\<rparr>;
               s2 = s1\<lparr>follower_offset_measured :=
                       word_of_int (min_1023 (fc1 + fk1) (fc2 + fk2))\<rparr>;
               s3 = s2\<lparr>wrap_factor :=
                       word_of_int
                         (if 64 + min_1023 (wc1 + wk1) (wc2 + wk2) div 2 < 511
                          then 64 + min_1023 (wc3 + wk3) (wc4 + wk4) div 2
                          else 511)\<rparr>
           in s3\<lparr>neg_wrap_factor :=
                   (if drop_bit 1 (wrap_factor s3) > 64
                    then drop_bit 1 (wrap_factor s3)
                    else 64)\<rparr>))"

subsection \<open>The audio-rate interrupt\<close>

text \<open>Lines 300-301: the follower offset steps towards the measured value.\<close>

definition smooth_offset :: "u16 \<Rightarrow> u16 \<Rightarrow> u16" where
  "smooth_offset current measured =
     (if current < measured then current + 1
      else if current > measured then current - 1
      else current)"

text \<open>
  Lines 305-310 and 328-333: the parabolic sine approximation, the same six statements
  for the leader and for the follower.
\<close>

definition sine_value :: "u16 \<Rightarrow> u16" where
  "sine_value phase =
     (let v = phase;
          v = push_bit 1 v;
          v = drop_bit 8 v;
          v = v * ((NOT v) AND 255);
          v = push_bit 2 v;
          v = drop_bit 8 v
      in v)"

text \<open>Lines 311 and 334: the polarity is the top bit of the phase.\<close>

definition polarity_of :: "u16 \<Rightarrow> bool" where
  "polarity_of phase = (phase AND 0x8000 \<noteq> 0)"

text \<open>Lines 319-323: the follower phase, computed in the 32-bit accumulator.\<close>

definition follower_accumulate :: "u16 \<Rightarrow> u16 \<Rightarrow> u32" where
  "follower_accumulate phase offset =
     (let acc = ucast phase;
          acc = acc * ucast offset;
          acc = drop_bit 8 acc;
          acc = acc + ucast phase;
          acc = acc AND 65535
      in acc)"

text \<open>Lines 338-342: the ring-modulated magnitude.\<close>

definition ring_mod :: "u16 \<Rightarrow> u16 \<Rightarrow> u16" where
  "ring_mod lv fv = drop_bit 1 (drop_bit 8 (lv * fv))"

text \<open>Lines 350-351: \<open>leader_value <<= 2; leader_value >>= 8\<close>.\<close>

definition rescale :: "u16 \<Rightarrow> u16" where
  "rescale v = drop_bit 8 (push_bit 2 v)"

text \<open>Lines 346-351: scaling by the threshold selected by the polarity.\<close>

definition wrap_scale :: "u16 \<Rightarrow> bool \<Rightarrow> u16 \<Rightarrow> u16 \<Rightarrow> u16" where
  "wrap_scale v pol wrap neg_wrap = rescale (v * (if pol then wrap else neg_wrap))"

text \<open>Lines 355-361: the multi-fold test, polarity flip and mask.\<close>

definition multi_fold :: "u16 \<Rightarrow> bool \<Rightarrow> u16 \<times> bool" where
  "multi_fold v pol =
     (if v AND 0xFF00 \<noteq> 0
      then (v AND 0x00FF, if v AND 0x0100 \<noteq> 0 then \<not> pol else pol)
      else (v, pol))"

text \<open>Lines 363-366: the reflection of values above 127.\<close>

definition reflect :: "u16 \<Rightarrow> u16" where
  "reflect v = (if v > 127 then 127 - (v AND 0x007F) else v)"

text \<open>Lines 355-366: the folding step, on a scaled value and its polarity.\<close>

definition fold_step :: "u16 \<Rightarrow> bool \<Rightarrow> u16 \<times> bool" where
  "fold_step v pol = (case multi_fold v pol of (v', pol') \<Rightarrow> (reflect v', pol'))"

text \<open>Lines 346-366: the wave folder, from the ring-modulated magnitude.\<close>

definition wave_fold :: "u16 \<Rightarrow> bool \<Rightarrow> u16 \<Rightarrow> u16 \<Rightarrow> u16 \<times> bool" where
  "wave_fold v pol wrap neg_wrap = fold_step (wrap_scale v pol wrap neg_wrap) pol"

text \<open>
  Lines 369-370: the sample. The right-hand sides are 16-bit values, truncated to
  8 bits by the assignment to \<open>output\<close>.
\<close>

definition assemble :: "u16 \<Rightarrow> bool \<Rightarrow> u8" where
  "assemble v pol = (if pol then ucast (127 - v) else ucast (128 + v))"

text \<open>
  \<open>SIGNAL(PWM_INTERRUPT)\<close>: one audio tick. The final \<open>PWM_VALUE = output\<close> copies the
  sample into the timer register.
\<close>

definition pwm_interrupt :: "state \<Rightarrow> state" where
  "pwm_interrupt s =
     (let phase = leader_phase s + phase_inc s;
          offset = smooth_offset (follower_offset_current s) (follower_offset_measured s);
          lv = sine_value phase;
          lpol = polarity_of phase;
          acc = follower_accumulate phase offset;
          fphase = (ucast acc :: u16);
          fv = sine_value fphase;
          fpol = polarity_of fphase;
          lv = ring_mod lv fv;
          lpol = (lpol \<noteq> fpol);
          (lv, lpol) = wave_fold lv lpol (wrap_factor s) (neg_wrap_factor s);
          out = assemble lv lpol
      in s\<lparr> leader_phase := phase, follower_offset_current := offset,
            follower_phase := fphase, accumulator := acc,
            follower_value := fv, follower_polarity := fpol,
            leader_value := lv, leader_polarity := lpol, output_u8 := out \<rparr>)"

section \<open>Auxiliary facts on 16-bit and 32-bit arithmetic\<close>

lemmas isr_defs =
  pwm_interrupt_def smooth_offset_def sine_value_def polarity_of_def
  follower_accumulate_def ring_mod_def rescale_def wrap_scale_def multi_fold_def
  reflect_def fold_step_def wave_fold_def assemble_def Let_def

lemma unat_u16_bound: "unat (x :: u16) < 65536"
  using unsigned_less [of x, where ?'a = nat] by simp



lemma mask_ff00: "(0xFF00 :: u16) = push_bit 8 (mask 8)"
  by (simp add: mask_eq_exp_minus_1)

lemma and_ff00: "(v :: u16) AND 0xFF00 = push_bit 8 (drop_bit 8 v)"
  unfolding mask_ff00
  by (rule bit_word_eqI) (auto simp add: bit_simps)

lemma and_007f: "unat ((v :: u16) AND 0x007F) = unat v mod 128"
proof -
  have "(0x007F :: u16) = mask 7" by (simp add: mask_eq_exp_minus_1)
  then have "v AND 0x007F = take_bit 7 v" by (simp add: take_bit_eq_mask)
  then show ?thesis by (simp add: unsigned_take_bit_eq take_bit_eq_mod unat_mod)
qed

lemma high_byte_zero:
  assumes "unat (v :: u16) < 256"
  shows "v AND 0xFF00 = 0"
proof -
  have "unat (drop_bit 8 v) = drop_bit 8 (unat v)"
    by (rule unat_drop_bit_eq)
  also have "\<dots> = unat v div 256"
    by (simp add: drop_bit_eq_div)
  finally have "unat (drop_bit 8 v) = 0" using assms by simp
  then have "drop_bit 8 v = 0" by (simp only: unat_eq_zero)
  then show ?thesis by (simp only: and_ff00 push_bit_of_0)
qed

section \<open>Facts about the parts of the interrupt\<close>

lemma smooth_up: "c < m \<Longrightarrow> unat (smooth_offset c m) = unat c + 1"
proof -
  assume h: "c < m"
  have "unat c < unat m" using h by (simp add: word_less_nat_alt)
  moreover have "unat m < 65536" by (rule unat_u16_bound)
  ultimately have "unat c + 1 < 65536" by simp
  then have "unat (c + 1) = unat c + 1"
    by (simp add: unat_word_ariths)
  then show ?thesis using h by (simp add: smooth_offset_def)
qed

lemma smooth_down: "m < c \<Longrightarrow> unat (smooth_offset c m) + 1 = unat c"
proof -
  assume h: "m < c"
  have lt: "unat m < unat c" using h by (simp add: word_less_nat_alt)
  then have "0 < unat c" by simp
  then have "1 \<le> c" by (simp add: word_le_nat_alt)
  then have "unat (c - 1) = unat c - 1" by (simp add: unat_sub)
  moreover have "\<not> c < m" using h by simp
  ultimately show ?thesis using h lt by (simp add: smooth_offset_def)
qed

lemma smooth_same: "smooth_offset m m = m"
  by (simp add: smooth_offset_def)



lemma rescale_unat: "unat (rescale v) = ((unat v * 4) mod 65536) div 256"
proof -
  have "unat (push_bit 2 v) = (unat v * 4) mod 65536"
    by (simp add: push_bit_eq_mult unat_word_ariths)
  moreover have "unat (drop_bit 8 (push_bit 2 v)) = drop_bit 8 (unat (push_bit 2 v))"
    by (rule unat_drop_bit_eq)
  ultimately show ?thesis
    by (simp add: rescale_def drop_bit_eq_div)
qed

lemma rescale_bound: "unat (rescale v) < 256"
  unfolding rescale_unat by (simp add: less_mult_imp_div_less)

lemma multi_fold_rescale: "multi_fold (rescale v) pol = (rescale v, pol)"
  by (simp add: multi_fold_def high_byte_zero rescale_bound)

lemma wave_fold_reflect:
  "wave_fold v pol wrap neg_wrap = (reflect (wrap_scale v pol wrap neg_wrap), pol)"
  by (simp add: wave_fold_def fold_step_def wrap_scale_def multi_fold_rescale)

lemma reflect_unat:
  "unat (reflect v) = (if 127 < unat v then 127 - unat v mod 128 else unat v)"
proof (cases "127 < v")
  case True
  have "(v AND 0x007F) \<le> 127"
    by (simp add: word_le_nat_alt and_007f)
  then have "unat (127 - (v AND 0x007F)) = 127 - unat v mod 128"
    by (simp add: unat_sub and_007f)
  with True show ?thesis by (simp add: reflect_def word_less_nat_alt)
next
  case False
  then show ?thesis by (simp add: reflect_def word_less_nat_alt)
qed

lemma reflect_bound: "unat (reflect v) \<le> 127"
  unfolding reflect_unat by simp

lemma assemble_unat:
  assumes "unat v \<le> 127"
  shows "unat (assemble v pol) = (if pol then 127 - unat v else 128 + unat v)"
proof (cases pol)
  case True
  have "v \<le> 127" using assms by (simp add: word_le_nat_alt)
  then have "unat (127 - v) = 127 - unat v" by (simp add: unat_sub)
  then have "unat (ucast (127 - v) :: u8) = 127 - unat v"
    by (simp add: unsigned_ucast_eq take_bit_eq_mod)
  with True show ?thesis by (simp add: assemble_def)
next
  case False
  have "unat (128 + v) = 128 + unat v"
    using assms by (simp add: unat_word_ariths)
  then have "unat (ucast (128 + v) :: u8) = 128 + unat v"
    using assms by (simp add: unsigned_ucast_eq take_bit_eq_mod)
  with False show ?thesis by (simp add: assemble_def)
qed

subsection \<open>What one tick stores in each global\<close>

lemma pwm_leader_phase:
  "leader_phase (pwm_interrupt s) = leader_phase s + phase_inc s"
  by (simp add: pwm_interrupt_def Let_def split: prod.splits)

lemma pwm_offset_current:
  "follower_offset_current (pwm_interrupt s) =
     smooth_offset (follower_offset_current s) (follower_offset_measured s)"
  by (simp add: pwm_interrupt_def Let_def split: prod.splits)

lemma pwm_offset_measured:
  "follower_offset_measured (pwm_interrupt s) = follower_offset_measured s"
  by (simp add: pwm_interrupt_def Let_def split: prod.splits)



lemma pwm_follower_polarity:
  "follower_polarity (pwm_interrupt s) = polarity_of (follower_phase (pwm_interrupt s))"
  by (simp add: pwm_interrupt_def Let_def split: prod.splits)

lemma pwm_leader_polarity:
  "leader_polarity (pwm_interrupt s) =
     (polarity_of (leader_phase (pwm_interrupt s)) \<noteq> follower_polarity (pwm_interrupt s))"
  by (simp add: pwm_interrupt_def Let_def wave_fold_reflect)

lemma pwm_leader_value_bound:
  "unat (leader_value (pwm_interrupt s)) \<le> 127"
  by (simp add: pwm_interrupt_def Let_def wave_fold_reflect reflect_bound)

lemma pwm_output:
  "output_u8 (pwm_interrupt s) =
     assemble (leader_value (pwm_interrupt s)) (leader_polarity (pwm_interrupt s))"
  by (simp add: pwm_interrupt_def Let_def split: prod.splits)

section \<open>Hard sync: the follower phase\<close>




section \<open>Follower-offset smoothing\<close>

text \<open>
  Claim C5. One audio tick leaves \<open>follower_offset_measured\<close> as it is and moves
  \<open>follower_offset_current\<close> by exactly 1 towards it when the two differ (without passing
  it), and leaves it unchanged when they are equal; so the distance between the two
  drops by exactly 1 when they differ and stays 0 otherwise.
\<close>

theorem follower_offset_smoothing:
  "follower_offset_measured (pwm_interrupt s) = follower_offset_measured s
   \<and> (follower_offset_current s < follower_offset_measured s \<longrightarrow>
        unat (follower_offset_current (pwm_interrupt s)) = unat (follower_offset_current s) + 1
        \<and> follower_offset_current (pwm_interrupt s) \<le> follower_offset_measured s)
   \<and> (follower_offset_measured s < follower_offset_current s \<longrightarrow>
        unat (follower_offset_current (pwm_interrupt s)) + 1 = unat (follower_offset_current s)
        \<and> follower_offset_measured s \<le> follower_offset_current (pwm_interrupt s))
   \<and> (follower_offset_current s = follower_offset_measured s \<longrightarrow>
        follower_offset_current (pwm_interrupt s) = follower_offset_current s)
   \<and> \<bar>uint (follower_offset_current (pwm_interrupt s)) - uint (follower_offset_measured s)\<bar> =
       \<bar>uint (follower_offset_current s) - uint (follower_offset_measured s)\<bar> -
       (if follower_offset_current s = follower_offset_measured s then 0 else 1)"
proof -
  let ?c = "follower_offset_current s" and ?m = "follower_offset_measured s"
  let ?c' = "smooth_offset ?c ?m"
  have up: "unat ?c' = unat ?c + 1" if "?c < ?m"
    using that by (rule smooth_up)
  have down: "unat ?c' + 1 = unat ?c" if "?m < ?c"
    using that by (rule smooth_down)
  have same: "?c' = ?c" if "?c = ?m"
    using that by (simp add: smooth_same)
  have up_le: "?c' \<le> ?m" if "?c < ?m"
    using that up [OF that] by (simp add: word_le_nat_alt word_less_nat_alt)
  have down_le: "?m \<le> ?c'" if "?m < ?c"
    using that down [OF that] by (simp add: word_le_nat_alt word_less_nat_alt)
  have dist: "\<bar>uint ?c' - uint ?m\<bar> = \<bar>uint ?c - uint ?m\<bar> - (if ?c = ?m then 0 else 1)"
  proof -
    consider "?c < ?m" | "?m < ?c" | "?c = ?m"
      by (metis linorder_less_linear)
    then show ?thesis
    proof cases
      case 1
      have "uint ?c' = uint ?c + 1" by (simp only: uint_nat up [OF 1])
      moreover have "uint ?c < uint ?m"
        using 1 by (simp add: word_less_def)
      ultimately show ?thesis using 1 by (simp add: smooth_same)
    next
      case 2
      have "uint ?c' + 1 = uint ?c"
        by (simp only: uint_nat down [OF 2, symmetric])
      moreover have "uint ?m < uint ?c"
        using 2 by (simp add: word_less_def)
      ultimately show ?thesis using 2 by (simp add: smooth_same)
    next
      case 3
      then show ?thesis by (simp add: smooth_same)
    qed
  qed
  show ?thesis
    unfolding pwm_offset_current pwm_offset_measured
    using up down same up_le down_le dist by blast
qed

theorem follower_offset_smoothing_witness:
  "follower_offset_current (initial_state\<lparr>follower_offset_measured := 5\<rparr>)
     < follower_offset_measured (initial_state\<lparr>follower_offset_measured := 5\<rparr>)
   \<and> follower_offset_current
        (pwm_interrupt (initial_state\<lparr>follower_offset_measured := 5\<rparr>)) = 2
   \<and> follower_offset_measured (initial_state\<lparr>follower_offset_current := 9\<rparr>)
     < follower_offset_current (initial_state\<lparr>follower_offset_current := 9\<rparr>)
   \<and> follower_offset_current
        (pwm_interrupt (initial_state\<lparr>follower_offset_current := 9\<rparr>)) = 8
   \<and> follower_offset_current initial_state = follower_offset_measured initial_state
   \<and> follower_offset_current (pwm_interrupt initial_state) = 1"
  using follower_offset_smoothing [of "initial_state\<lparr>follower_offset_measured := 5\<rparr>"]
    follower_offset_smoothing [of "initial_state\<lparr>follower_offset_current := 9\<rparr>"]
    follower_offset_smoothing [of initial_state]
  by (simp add: pwm_offset_current smooth_offset_def initial_state_def)

section \<open>The wave folder\<close>

text \<open>
  Claim C6. For every 16-bit value, \<open>leader_value <<= 2; leader_value >>= 8\<close> leaves a
  value of at most 255, equal to \<open>((leader_value * 4) mod 65536) >> 8\<close>. The test
  \<open>leader_value & 0b1111111100000000\<close> that follows is therefore false, the guarded
  block changes neither value nor polarity, the wave folder returns the polarity it was
  given, and after every tick \<open>leader_polarity\<close> is the exclusive-or of the top bits of
  the two phases.
\<close>

theorem multi_fold_branch_dead:
  "unat (rescale v) \<le> 255
   \<and> unat (rescale v) = ((unat v * 4) mod 65536) div 256
   \<and> rescale v AND 0xFF00 = 0
   \<and> multi_fold (rescale v) pol = (rescale v, pol)
   \<and> snd (wave_fold m pol wrap neg_wrap) = pol
   \<and> leader_polarity (pwm_interrupt s) =
       (polarity_of (leader_phase (pwm_interrupt s)) \<noteq>
        polarity_of (follower_phase (pwm_interrupt s)))"
proof -
  have "unat (rescale v) \<le> 255"
    using rescale_bound [of v] by simp
  moreover have "rescale v AND 0xFF00 = 0"
    by (rule high_byte_zero) (rule rescale_bound)
  moreover have "snd (wave_fold m pol wrap neg_wrap) = pol"
    by (simp add: wave_fold_reflect)
  moreover have "leader_polarity (pwm_interrupt s) =
       (polarity_of (leader_phase (pwm_interrupt s)) \<noteq>
        polarity_of (follower_phase (pwm_interrupt s)))"
    by (simp only: pwm_leader_polarity pwm_follower_polarity)
  ultimately show ?thesis
    by (simp only: rescale_unat multi_fold_rescale simp_thms)
qed

text \<open>
  The product \<open>126 * 255 = 32130\<close> has bits above bit 13 set; the rescale drops them and
  returns \<open>(128520 mod 65536) >> 8 = 246\<close>.
\<close>

theorem multi_fold_branch_dead_witness:
  "rescale 32130 = 246
   \<and> (246 :: u16) AND 0xFF00 = 0
   \<and> multi_fold (rescale 32130) True = (246, True)
   \<and> snd (wave_fold 126 True 255 255) = True"
  using multi_fold_branch_dead [of 32130 True 126 255 255 initial_state]
  by (simp add: rescale_def)

text \<open>
  Claim C8. On a value already in 0..127 the folding step (the masked multi-fold test
  followed by the \<open>> 127\<close> reflection) returns the value and the polarity unchanged.
\<close>

theorem fold_step_idempotent:
  "v \<le> 127 \<Longrightarrow> fold_step v pol = (v, pol)"
proof -
  assume "v \<le> 127"
  then have le: "unat v \<le> 127" by (simp add: word_le_nat_alt)
  then have "v AND 0xFF00 = 0" by (intro high_byte_zero) simp
  moreover have "\<not> 127 < v" using le by (simp add: word_less_nat_alt)
  ultimately show ?thesis
    by (simp add: fold_step_def multi_fold_def reflect_def)
qed

theorem fold_step_idempotent_witness:
  "(100 :: u16) \<le> 127 \<and> fold_step 100 True = (100, True)
   \<and> (127 :: u16) \<le> 127 \<and> fold_step 127 False = (127, False)"
  using fold_step_idempotent [of 100 True] fold_step_idempotent [of 127 False]
  by simp

section \<open>Output assembly\<close>

text \<open>
  Claim C7 says that a magnitude of 0 maps to the midpoint exactly. The sample has no
  single value at magnitude 0: the two ticks below both store magnitude 0, the first
  (leader phase wrapping to 0, polarity bit clear) gives sample 128 and the second
  (leader phase reaching 32768, follower phase wrapping to 0, polarity bit set) gives
  sample 127.
\<close>

theorem output_midpoint_counterexample:
  "leader_value (pwm_interrupt
      (initial_state\<lparr>leader_phase := 65467, phase_inc := 69\<rparr>)) = 0
   \<and> output_u8 (pwm_interrupt
      (initial_state\<lparr>leader_phase := 65467, phase_inc := 69\<rparr>)) = 128
   \<and> leader_value (pwm_interrupt
      (initial_state\<lparr>leader_phase := 32699, phase_inc := 69, follower_offset_current := 256,
        follower_offset_measured := 256\<rparr>)) = 0
   \<and> output_u8 (pwm_interrupt
      (initial_state\<lparr>leader_phase := 32699, phase_inc := 69, follower_offset_current := 256,
        follower_offset_measured := 256\<rparr>)) = 127
   \<and> output_u8 (pwm_interrupt
      (initial_state\<lparr>leader_phase := 65467, phase_inc := 69\<rparr>)) \<noteq>
     output_u8 (pwm_interrupt
      (initial_state\<lparr>leader_phase := 32699, phase_inc := 69, follower_offset_current := 256,
        follower_offset_measured := 256\<rparr>))"
  by (simp add: isr_defs initial_state_def)

text \<open>
  Claim C7, amended. After every audio tick the folded magnitude \<open>leader_value\<close> is at
  most 127. With the polarity bit clear the sample is \<open>128 + leader_value\<close>, in 128..255;
  with the polarity bit set it is \<open>127 - leader_value\<close>, in 0..127; neither wraps in
  8 bits, so the sample is always in 0..255. A magnitude of 0 maps to 128 when the
  polarity bit is clear and to 127 when it is set, the two codes on either side of the
  centre of the range.
\<close>

theorem output_assembly:
  "unat (leader_value (pwm_interrupt s)) \<le> 127
   \<and> unat (output_u8 (pwm_interrupt s)) \<le> 255
   \<and> (\<not> leader_polarity (pwm_interrupt s) \<longrightarrow>
        unat (output_u8 (pwm_interrupt s)) = 128 + unat (leader_value (pwm_interrupt s))
        \<and> 128 \<le> unat (output_u8 (pwm_interrupt s))
        \<and> unat (output_u8 (pwm_interrupt s)) \<le> 255)
   \<and> (leader_polarity (pwm_interrupt s) \<longrightarrow>
        unat (output_u8 (pwm_interrupt s)) + unat (leader_value (pwm_interrupt s)) = 127
        \<and> unat (output_u8 (pwm_interrupt s)) \<le> 127)
   \<and> (leader_value (pwm_interrupt s) = 0 \<and> \<not> leader_polarity (pwm_interrupt s) \<longrightarrow>
        output_u8 (pwm_interrupt s) = 128)
   \<and> (leader_value (pwm_interrupt s) = 0 \<and> leader_polarity (pwm_interrupt s) \<longrightarrow>
        output_u8 (pwm_interrupt s) = 127)"
proof -
  let ?v = "leader_value (pwm_interrupt s)" and ?p = "leader_polarity (pwm_interrupt s)"
  have le: "unat ?v \<le> 127" by (rule pwm_leader_value_bound)
  have out: "unat (output_u8 (pwm_interrupt s)) = (if ?p then 127 - unat ?v else 128 + unat ?v)"
    unfolding pwm_output using le by (rule assemble_unat)
  have zero: "output_u8 (pwm_interrupt s) = (if ?p then 127 else 128)" if "?v = 0"
    unfolding pwm_output using that by (simp add: assemble_def)
  show ?thesis using le out zero by auto
qed

text \<open>
  Four ticks: polarity bit clear with magnitude 9 (sample 137), polarity bit set with
  magnitude 63 (sample 64), magnitude 0 with the polarity bit clear (sample 128) and
  magnitude 0 with the polarity bit set (sample 127).
\<close>

theorem output_assembly_witness:
  "\<not> leader_polarity (pwm_interrupt
      (initial_state\<lparr>leader_phase := 16187, phase_inc := 69, follower_offset_current := 0,
        follower_offset_measured := 0, neg_wrap_factor := 255\<rparr>))
   \<and> leader_value (pwm_interrupt
      (initial_state\<lparr>leader_phase := 16187, phase_inc := 69, follower_offset_current := 0,
        follower_offset_measured := 0, neg_wrap_factor := 255\<rparr>)) = 9
   \<and> output_u8 (pwm_interrupt
      (initial_state\<lparr>leader_phase := 16187, phase_inc := 69, follower_offset_current := 0,
        follower_offset_measured := 0, neg_wrap_factor := 255\<rparr>)) = 137
   \<and> leader_polarity (pwm_interrupt
      (initial_state\<lparr>leader_phase := 24507, phase_inc := 69, follower_offset_current := 128,
        follower_offset_measured := 128, wrap_factor := 511\<rparr>))
   \<and> leader_value (pwm_interrupt
      (initial_state\<lparr>leader_phase := 24507, phase_inc := 69, follower_offset_current := 128,
        follower_offset_measured := 128, wrap_factor := 511\<rparr>)) = 63
   \<and> output_u8 (pwm_interrupt
      (initial_state\<lparr>leader_phase := 24507, phase_inc := 69, follower_offset_current := 128,
        follower_offset_measured := 128, wrap_factor := 511\<rparr>)) = 64
   \<and> leader_value (pwm_interrupt
      (initial_state\<lparr>leader_phase := 65467, phase_inc := 69\<rparr>)) = 0
   \<and> \<not> leader_polarity (pwm_interrupt
      (initial_state\<lparr>leader_phase := 65467, phase_inc := 69\<rparr>))
   \<and> output_u8 (pwm_interrupt
      (initial_state\<lparr>leader_phase := 65467, phase_inc := 69\<rparr>)) = 128
   \<and> leader_value (pwm_interrupt
      (initial_state\<lparr>leader_phase := 32699, phase_inc := 69, follower_offset_current := 256,
        follower_offset_measured := 256\<rparr>)) = 0
   \<and> leader_polarity (pwm_interrupt
      (initial_state\<lparr>leader_phase := 32699, phase_inc := 69, follower_offset_current := 256,
        follower_offset_measured := 256\<rparr>))
   \<and> output_u8 (pwm_interrupt
      (initial_state\<lparr>leader_phase := 32699, phase_inc := 69, follower_offset_current := 256,
        follower_offset_measured := 256\<rparr>)) = 127"
  using output_assembly
      [of "initial_state\<lparr>leader_phase := 16187, phase_inc := 69, follower_offset_current := 0,
        follower_offset_measured := 0, neg_wrap_factor := 255\<rparr>"]
    output_assembly
      [of "initial_state\<lparr>leader_phase := 24507, phase_inc := 69, follower_offset_current := 128,
        follower_offset_measured := 128, wrap_factor := 511\<rparr>"]
    output_assembly
      [of "initial_state\<lparr>leader_phase := 65467, phase_inc := 69\<rparr>"]
    output_assembly
      [of "initial_state\<lparr>leader_phase := 32699, phase_inc := 69, follower_offset_current := 256,
        follower_offset_measured := 256\<rparr>"]
  by (simp add: isr_defs initial_state_def)

section \<open>The multi-fold step on a value that crosses an odd multiple of the period\<close>

text \<open>
  Claim C1. After scaling by the threshold selected by the polarity, a scaled value above
  one period (256) is to be reduced modulo the period, and the polarity bit inverted
  when the scaled value crosses an odd multiple of the period (bit 8 set). The ticks
  below reach leader phase 16256, from 16255 with increment 1 and from 16187 with
  increment 69 (the smallest entry of \<open>freqTable\<close>), with follower offset 0 and thresholds
  511 and 255. Both sines are 254, the ring-modulated magnitude is 126 with the
  polarity bit clear, so the threshold is 255 and the scaled value is
  \<open>(126 * 255) >> 6 = 502 = 256 + 246\<close>, with bit 8 set. The code computes the scaling as
  \<open><<= 2; >>= 8\<close> in 16 bits, which returns 246: bit 8 is already lost when the
  multi-fold test runs, the test is false, and the polarity bit stays clear. Each tick
  stores magnitude 9 with the polarity bit clear and sample 137, where the inverted
  polarity would give sample \<open>127 - 9 = 118\<close>.
\<close>

theorem wave_fold_keeps_polarity_at_odd_period:
  "sine_value 16256 = 254
   \<and> ring_mod 254 254 = 126
   \<and> (126 * 255) div 64 = (502 :: nat)
   \<and> (502 :: nat) mod 256 = 246
   \<and> (502 :: nat) div 256 mod 2 = 1
   \<and> wrap_scale 126 False 511 255 = 246
   \<and> multi_fold 246 False = (246, False)
   \<and> multi_fold 502 False = (246, True)
   \<and> wave_fold 126 False 511 255 = (9, False)
   \<and> \<not> leader_polarity (pwm_interrupt
        (initial_state\<lparr>leader_phase := 16255, follower_offset_current := 0,
            follower_offset_measured := 0, wrap_factor := 511, neg_wrap_factor := 255\<rparr>))
   \<and> leader_value (pwm_interrupt
        (initial_state\<lparr>leader_phase := 16255, follower_offset_current := 0,
            follower_offset_measured := 0, wrap_factor := 511, neg_wrap_factor := 255\<rparr>)) = 9
   \<and> output_u8 (pwm_interrupt
        (initial_state\<lparr>leader_phase := 16255, follower_offset_current := 0,
            follower_offset_measured := 0, wrap_factor := 511, neg_wrap_factor := 255\<rparr>)) = 137
   \<and> leader_phase (pwm_interrupt
        (initial_state\<lparr>leader_phase := 16187, phase_inc := 69,
            follower_offset_current := 0, follower_offset_measured := 0,
            wrap_factor := 511, neg_wrap_factor := 255\<rparr>)) = 16256
   \<and> \<not> leader_polarity (pwm_interrupt
        (initial_state\<lparr>leader_phase := 16187, phase_inc := 69,
            follower_offset_current := 0, follower_offset_measured := 0,
            wrap_factor := 511, neg_wrap_factor := 255\<rparr>))
   \<and> leader_value (pwm_interrupt
        (initial_state\<lparr>leader_phase := 16187, phase_inc := 69,
            follower_offset_current := 0, follower_offset_measured := 0,
            wrap_factor := 511, neg_wrap_factor := 255\<rparr>)) = 9
   \<and> output_u8 (pwm_interrupt
        (initial_state\<lparr>leader_phase := 16187, phase_inc := 69,
            follower_offset_current := 0, follower_offset_measured := 0,
            wrap_factor := 511, neg_wrap_factor := 255\<rparr>)) = 137"
  by (simp add: isr_defs initial_state_def)

section \<open>Control-change handling\<close>

lemma unat_u8_bound: "unat (x :: u8) < 256"
  using unsigned_less [of x, where ?'a = nat] by simp

lemma portTime_value: "unat (20 * ucast (val :: u8) :: u16) = 20 * unat val"
proof -
  have "unat val < 2 ^ 16" using unat_u8_bound [of val] by simp
  then have "unat (ucast val :: u16) = unat val"
    by (simp add: unsigned_ucast_eq take_bit_nat_eq_self)
  moreover have "20 * unat val < 65536" using unat_u8_bound [of val] by simp
  ultimately show ?thesis by (simp add: unat_word_ariths)
qed

text \<open>
  Claim C9. A control change with controller number 5 and value 0 clears \<open>port\<close> and
  changes nothing else; with controller number 5 and a non-zero value it sets \<open>port\<close>,
  sets \<open>portTime\<close> to 20 times the value and changes nothing else; with any other
  controller number the state is unchanged. This holds for every byte value, in
  particular for the MIDI range 0..127, and on every channel.
\<close>

theorem handleControlChange_portamento:
  "(num = 5 \<and> val = 0 \<longrightarrow>
      \<not> port (handleControlChange channel num val s)
      \<and> portTime (handleControlChange channel num val s) = portTime s
      \<and> (handleControlChange channel num val s)\<lparr>port := port s\<rparr> = s)
   \<and> (num = 5 \<and> val \<noteq> 0 \<longrightarrow>
      port (handleControlChange channel num val s)
      \<and> unat (portTime (handleControlChange channel num val s)) = 20 * unat val
      \<and> (handleControlChange channel num val s)\<lparr>port := port s, portTime := portTime s\<rparr> = s)
   \<and> (num \<noteq> 5 \<longrightarrow> handleControlChange channel num val s = s)"
  by (simp add: handleControlChange_def portTime_value)

theorem handleControlChange_portamento_witness:
  "\<not> port (handleControlChange 0 5 0 (initial_state\<lparr>port := True, portTime := 200\<rparr>))
   \<and> portTime (handleControlChange 0 5 0 (initial_state\<lparr>port := True, portTime := 200\<rparr>)) = 200
   \<and> port (handleControlChange 3 5 10 initial_state)
   \<and> portTime (handleControlChange 3 5 10 initial_state) = 200
   \<and> handleControlChange 0 7 100 initial_state = initial_state"
  using handleControlChange_portamento
      [of 5 0 0 "initial_state\<lparr>port := True, portTime := 200\<rparr>"]
    handleControlChange_portamento [of 5 10 3 initial_state]
    handleControlChange_portamento [of 7 100 0 initial_state]
  by (simp add: handleControlChange_def initial_state_def)

section \<open>Fold thresholds\<close>

lemma loop_wrap_factor:
  "wrap_factor (loop r fc fk (wc1, wc2, wc3, wc4) (wk1, wk2, wk3, wk4) s) =
     word_of_int
       (if 64 + min_1023 (wc1 + wk1) (wc2 + wk2) div 2 < 511
        then 64 + min_1023 (wc3 + wk3) (wc4 + wk4) div 2
        else 511)"
  by (simp add: loop_def Let_def split: prod.splits)

lemma max_macro_64: "(if (d :: u16) > 64 then d else 64) = max d 64"
  by (auto simp add: max_def)

lemma loop_neg_wrap_factor:
  "neg_wrap_factor (loop r fc fk wc wk s) =
     max (drop_bit 1 (wrap_factor (loop r fc fk wc wk s))) 64"
  by (cases fc; cases fk; cases wc; cases wk)
    (simp add: loop_def Let_def max_macro_64)

lemma uint_small: "0 \<le> k \<Longrightarrow> k < 65536 \<Longrightarrow> uint (word_of_int k :: u16) = k"
  by (simp add: uint_word_of_int)

lemma uint_max_u16: "uint (max (a :: u16) b) = max (uint a) (uint b)"
  by (simp add: max_def word_le_def)

lemma uint_half_u16: "uint (drop_bit 1 (w :: u16)) = uint w div 2"
  by (simp add: drop_bit_eq_div uint_div_distrib)

text \<open>
  When every evaluation of the wrap sum reads the same two values, the pass stores
  \<open>wrap_factor = min (64 + v div 2) 511\<close> for the clamped sum \<open>v\<close>, in 64..511, and
  \<open>neg_wrap_factor = max (wrap_factor div 2) 64\<close>, in 64..255.
\<close>

lemma loop_thresholds_stable_readings:
  assumes "0 \<le> cv" "cv \<le> 1023" "0 \<le> knob" "knob \<le> 1023"
  shows "uint (wrap_factor (loop r fc fk (cv, cv, cv, cv) (knob, knob, knob, knob) s)) =
       min (64 + min 1023 (cv + knob) div 2) 511
   \<and> 64 \<le> uint (wrap_factor (loop r fc fk (cv, cv, cv, cv) (knob, knob, knob, knob) s))
   \<and> uint (wrap_factor (loop r fc fk (cv, cv, cv, cv) (knob, knob, knob, knob) s)) \<le> 511
   \<and> uint (neg_wrap_factor (loop r fc fk (cv, cv, cv, cv) (knob, knob, knob, knob) s)) =
       max (uint (wrap_factor (loop r fc fk (cv, cv, cv, cv) (knob, knob, knob, knob) s)) div 2) 64
   \<and> 64 \<le> uint (neg_wrap_factor (loop r fc fk (cv, cv, cv, cv) (knob, knob, knob, knob) s))
   \<and> uint (neg_wrap_factor (loop r fc fk (cv, cv, cv, cv) (knob, knob, knob, knob) s)) \<le> 255"
proof -
  let ?v = "min 1023 (cv + knob)"
  let ?w = "wrap_factor (loop r fc fk (cv, cv, cv, cv) (knob, knob, knob, knob) s)"
  let ?n = "neg_wrap_factor (loop r fc fk (cv, cv, cv, cv) (knob, knob, knob, knob) s)"
  have v: "0 \<le> ?v \<and> ?v \<le> 1023"
    using assms by simp
  have m: "min_1023 (cv + knob) (cv + knob) = ?v"
    by (simp add: min_1023_def min_def)
  have e: "?w = word_of_int (min (64 + ?v div 2) 511)"
    unfolding loop_wrap_factor m by (simp add: min_def)
  have "0 \<le> min (64 + ?v div 2) 511" "min (64 + ?v div 2) 511 < 65536"
    using v by simp_all
  then have w: "uint ?w = min (64 + ?v div 2) 511"
    unfolding e by (rule uint_small)
  have wr: "64 \<le> uint ?w \<and> uint ?w \<le> 511"
    unfolding w using v by simp
  have n: "uint ?n = max (uint ?w div 2) 64"
    unfolding loop_neg_wrap_factor uint_max_u16 uint_half_u16 by simp
  have nr: "64 \<le> uint ?n \<and> uint ?n \<le> 255"
    unfolding n using wr by (simp add: max_def) linarith
  show ?thesis using w wr n nr by blast
qed

text \<open>
  Claim C3. For the clamped control value \<open>v\<close> the loop is to store
  \<open>wrap_factor = min (64 + v div 2) 511\<close>, in 64..511, and
  \<open>neg_wrap_factor = max (wrap_factor div 2) 64\<close>, in 64..255. The \<open>min\<close> macro reads the
  pins again after its comparison, so these bounds fail when the wrap input moves
  during the pass. With the knob at 0 and the wrap CV reading 893, 893, 896, 896, the
  comparison sees \<open>64 + 893 div 2 = 510 < 511\<close> and the value stored is
  \<open>64 + 896 div 2 = 512\<close>, with \<open>neg_wrap_factor = 256\<close>. With both pins reading 0, 0, 0, 1023
  the comparisons see 0 and the value stored is \<open>64 + 2046 div 2 = 1087\<close>, with
  \<open>neg_wrap_factor = 543\<close>.
\<close>

theorem loop_reread_exceeds_thresholds:
  "64 + min_1023 (893 + 0) (893 + 0) div 2 = 510
   \<and> 64 + min_1023 (896 + 0) (896 + 0) div 2 = 512
   \<and> wrap_factor (loop 69 (0, 0) (0, 0) (893, 893, 896, 896) (0, 0, 0, 0) initial_state) = 512
   \<and> neg_wrap_factor (loop 69 (0, 0) (0, 0) (893, 893, 896, 896) (0, 0, 0, 0) initial_state) = 256
   \<and> wrap_factor (loop 69 (0, 0) (0, 0) (0, 0, 0, 1023) (0, 0, 0, 1023) initial_state) = 1087
   \<and> neg_wrap_factor (loop 69 (0, 0) (0, 0) (0, 0, 0, 1023) (0, 0, 0, 1023) initial_state) = 543"
  by (simp add: loop_def min_1023_def initial_state_def)

section \<open>The pitch tables\<close>

lemma freqTable_length: "length freqTable = 1024"
  by (simp add: freqTable_def)

lemma midiTable_length: "length midiTable = 61"
  by (simp add: midiTable_def)

lemma freqTable_adjacent: "successively (\<le>) freqTable"
  by code_simp

lemma midiTable_codes: "list_all (\<lambda>code. unat code < 1024) midiTable"
  by (simp add: midiTable_def)

lemma unat_of_nat_u16: "n < 65536 \<Longrightarrow> unat (of_nat n :: u16) = n"
  by (simp add: unat_of_nat)

lemma mapFreq_in_range: "c < 1024 \<Longrightarrow> mapFreq (of_nat c) = Some (freqTable ! c)"
  by (simp add: mapFreq_def pgm_read_word_near_def freqTable_length unat_of_nat_u16)

text \<open>
  Claim C10. The table has 1024 entries and is non-decreasing from each code to the
  next: for every code \<open>c\<close> in 0..1022 the entries at \<open>c\<close> and \<open>c + 1\<close>, which are what
  \<open>mapFreq\<close> returns for these codes, satisfy \<open>freqTable[c] \<le> freqTable[c + 1]\<close>.
\<close>

theorem freqTable_monotone:
  assumes "c \<le> 1022"
  shows "length freqTable = 1024
   \<and> mapFreq (of_nat c) = Some (freqTable ! c)
   \<and> mapFreq (of_nat (c + 1)) = Some (freqTable ! (c + 1))
   \<and> freqTable ! c \<le> freqTable ! (c + 1)"
proof -
  have "Suc c < length freqTable"
    using assms by (simp add: freqTable_length)
  with freqTable_adjacent have "freqTable ! c \<le> freqTable ! Suc c"
    by (rule successively_nth)
  moreover have "mapFreq (of_nat c) = Some (freqTable ! c)"
    using assms by (intro mapFreq_in_range) simp
  moreover have "mapFreq (of_nat (c + 1)) = Some (freqTable ! (c + 1))"
    using assms by (intro mapFreq_in_range) simp
  ultimately show ?thesis
    by (simp add: freqTable_length)
qed

theorem freqTable_monotone_witness:
  "(3 :: nat) \<le> 1022 \<and> freqTable ! 3 = 69 \<and> freqTable ! (3 + 1) = 70
   \<and> freqTable ! 3 \<le> freqTable ! (3 + 1)"
  using freqTable_monotone [of 3]
  by (simp add: freqTable_def)

section \<open>Note-on handling\<close>

lemma midiTable_entry_code: "i < 61 \<Longrightarrow> unat (midiTable ! i) < 1024"
  using midiTable_codes by (simp add: list_all_length midiTable_length)

lemma mapMIDI_in_range:
  assumes "unat n < 61"
  shows "mapMIDI n = Some (freqTable ! unat (midiTable ! unat n))"
  using assms midiTable_entry_code [OF assms]
  by (simp add: mapMIDI_def pgm_read_word_near_def midiTable_length freqTable_length)

lemma note_index_range:
  "0 \<le> max 24 (min 84 (k :: int)) - 24 \<and> max 24 (min 84 k) - 24 \<le> 60"
  by simp

lemma uint_midinote:
  "uint (word_of_int (max 24 (min 84 k) - 24) :: u16) = max 24 (min 84 k) - 24"
  using note_index_range [of k] by (intro uint_small) simp_all

lemma uint_clamped_pitch:
  "uint (word_of_int (max 24 (min 84 k)) :: u8) = max 24 (min 84 k)"
proof -
  have "0 \<le> max 24 (min 84 k)" "max 24 (min 84 k) < 256" by simp_all
  then show ?thesis by (simp add: uint_word_of_int)
qed

lemma handleNoteOn_result:
  assumes "mapMIDI n = Some t" and "n = word_of_int (max 24 (min 84 (uint pitch)) - 24)"
  shows "handleNoteOn channel pitch velocity s =
     Some (if port s
           then s\<lparr>digital_out := True, midinote := n,
                  portRamp := GoTimed t (portTime s) LINEAR ONCEFORWARD\<rparr>
           else s\<lparr>digital_out := True, midinote := n, portRamp := Go t\<rparr>)"
  using assms by (simp add: handleNoteOn_def Let_def)

text \<open>
  Claim C4. For every note-on, \<open>handleNoteOn\<close> stores
  \<open>midinote = clamp(pitch, 24, 84) - 24\<close>, which lies in 0..60, and requests the ramp
  target \<open>mapMIDI(midinote)\<close>. Both table reads are in bounds: the index into \<open>midiTable\<close>
  is below its 61 entries and the code read from it is at most 1023, below the 1024
  entries of \<open>freqTable\<close>. A pitch outside 24..84 gives the same result as the clamped
  pitch. This holds for every byte, in particular for the MIDI pitches 0..127.
\<close>

theorem handleNoteOn_clamp:
  "(\<exists>s'. handleNoteOn channel pitch velocity s = Some s'
      \<and> uint (midinote s') = max 24 (min 84 (uint pitch)) - 24
      \<and> unat (midinote s') \<le> 60
      \<and> unat (midinote s') < length midiTable
      \<and> unat (midiTable ! unat (midinote s')) \<le> 1023
      \<and> unat (midiTable ! unat (midinote s')) < length freqTable
      \<and> mapMIDI (midinote s') = Some (ramp_target (portRamp s'))
      \<and> ramp_target (portRamp s') = freqTable ! unat (midiTable ! unat (midinote s')))
   \<and> handleNoteOn channel pitch velocity s =
       handleNoteOn channel (word_of_int (max 24 (min 84 (uint pitch)))) velocity s"
proof
  let ?n = "word_of_int (max 24 (min 84 (uint pitch)) - 24) :: u16"
  let ?t = "freqTable ! unat (midiTable ! unat ?n)"
  have u: "uint ?n = max 24 (min 84 (uint pitch)) - 24"
    by (rule uint_midinote)
  have "unat ?n = nat (uint ?n)" by (rule unat_eq_nat_uint)
  then have n60: "unat ?n \<le> 60"
    unfolding u by simp
  then have n61: "unat ?n < 61" by simp
  have code: "unat (midiTable ! unat ?n) < 1024"
    using n61 by (rule midiTable_entry_code)
  have m: "mapMIDI ?n = Some ?t"
    using n61 by (rule mapMIDI_in_range)
  show "\<exists>s'. handleNoteOn channel pitch velocity s = Some s'
      \<and> uint (midinote s') = max 24 (min 84 (uint pitch)) - 24
      \<and> unat (midinote s') \<le> 60
      \<and> unat (midinote s') < length midiTable
      \<and> unat (midiTable ! unat (midinote s')) \<le> 1023
      \<and> unat (midiTable ! unat (midinote s')) < length freqTable
      \<and> mapMIDI (midinote s') = Some (ramp_target (portRamp s'))
      \<and> ramp_target (portRamp s') = freqTable ! unat (midiTable ! unat (midinote s'))"
  proof (cases "port s")
    case True
    let ?s' = "s\<lparr>digital_out := True, midinote := ?n,
                  portRamp := GoTimed ?t (portTime s) LINEAR ONCEFORWARD\<rparr>"
    have "handleNoteOn channel pitch velocity s = Some ?s'"
      using True handleNoteOn_result [OF m refl, of channel velocity s] by simp
    moreover have "midinote ?s' = ?n" "ramp_target (portRamp ?s') = ?t" by simp_all
    ultimately show ?thesis
      using u n60 n61 code m
      by (intro exI [of _ ?s']) (simp add: midiTable_length freqTable_length)
  next
    case False
    let ?s' = "s\<lparr>digital_out := True, midinote := ?n, portRamp := Go ?t\<rparr>"
    have "handleNoteOn channel pitch velocity s = Some ?s'"
      using False handleNoteOn_result [OF m refl, of channel velocity s] by simp
    moreover have "midinote ?s' = ?n" "ramp_target (portRamp ?s') = ?t" by simp_all
    ultimately show ?thesis
      using u n60 n61 code m
      by (intro exI [of _ ?s']) (simp add: midiTable_length freqTable_length)
  qed
next
  show "handleNoteOn channel pitch velocity s =
       handleNoteOn channel (word_of_int (max 24 (min 84 (uint pitch)))) velocity s"
    by (simp add: handleNoteOn_def uint_clamped_pitch)
qed

text \<open>
  Pitch 10 lies below the range and pitch 100 above it: they are handled as pitch 24
  (index 0, code 0, increment 69) and as pitch 84 (index 60).
\<close>

theorem handleNoteOn_clamp_witness:
  "handleNoteOn 0 10 64 initial_state = handleNoteOn 0 24 64 initial_state
   \<and> handleNoteOn 0 10 64 initial_state =
       Some (initial_state\<lparr>digital_out := True, midinote := 0, portRamp := Go 69\<rparr>)
   \<and> handleNoteOn 0 100 64 initial_state = handleNoteOn 0 84 64 initial_state"
  using handleNoteOn_clamp [of 0 10 64 initial_state]
    handleNoteOn_clamp [of 0 100 64 initial_state]
  by (simp add: handleNoteOn_def mapMIDI_def pgm_read_word_near_def
      midiTable_def freqTable_def initial_state_def)

end
